theory Spec2Isabelle
  imports Main "HOL-Library.Sublist"
begin

section \<open>Data model\<close>

text \<open>
  The component \<open>App\<close> of \<open>src/renderer/src/App.tsx\<close> keeps six pieces of React state,
  reads two cached queries and owns three mutations. A \<open>User\<close> is the record the backend
  returns. The identifier field is called \<open>user_id\<close> here, since \<open>id\<close> is the identity
  function of HOL.
\<close>

record User =
  user_id :: string
  firstName :: string
  lastName :: string

text \<open>
  The form data is a JavaScript object. \<open>handleInputChange\<close> writes it under a computed
  key, the \<open>name\<close> attribute of the input element, so the object is a map from property
  names to values: \<open>{ ...prev, [name]: value }\<close> is \<open>prev(name \<mapsto> value)\<close>.
\<close>

type_synonym CreateUserInput = "string \<rightharpoonup> string"

definition form_of :: "string \<Rightarrow> string \<Rightarrow> CreateUserInput" where
  \<comment> \<open>the object literal \<open>{ firstName: f, lastName: l }\<close>\<close>
  "form_of f l = [''firstName'' \<mapsto> f, ''lastName'' \<mapsto> l]"

text \<open>The three requests that the mutations send to the backend (\<open>mutationFn\<close>).\<close>

datatype mutation_call =
    CreateUser CreateUserInput
  | UpdateUser string CreateUserInput
  | DeleteUser string

text \<open>The three mutation observers of the component.\<close>

datatype mutation = Create | Delete | Update

text \<open>How a request ends: the promise of the backend call resolves or rejects.\<close>

datatype outcome = Resolved | Rejected

subsection \<open>The query cache\<close>

text \<open>
  Modelled from the spec: the cache of the query client, which belongs to the data-fetching
  library and is not in the repository. A query key is an array of strings; the cache holds
  one entry per key, and an entry carries the flag that marks its data as stale.
\<close>

record query_state =
  isInvalidated :: bool

type_synonym query_cache = "string list \<rightharpoonup> query_state"

text \<open>
  Modelled from the spec: \<open>queryClient.invalidateQueries\<close> of the library (glossary: to
  invalidate a cache key is to mark cached data as stale, triggering a refetch). It marks
  every cached query whose key starts with the given key, which is how one call with
  \<open>['users', 'search']\<close> reaches the whole \<open>users:search:*\<close> family. The refetch that
  follows is not modelled.
\<close>

definition invalidateQueries :: "string list \<Rightarrow> query_cache \<Rightarrow> query_cache" where
  "invalidateQueries queryKey c =
     (\<lambda>k. case c k of
            None \<Rightarrow> None
          | Some q \<Rightarrow> Some (if prefix queryKey k then q\<lparr>isInvalidated := True\<rparr> else q))"

text \<open>
  Modelled from the spec: what \<open>useQuery\<close> of the library does to the cache. A key that
  the cache does not hold yet gets a fresh entry; an entry that exists is kept.
\<close>

definition build :: "string list \<Rightarrow> query_cache \<Rightarrow> query_cache" where
  "build k c = (case c k of None \<Rightarrow> c(k \<mapsto> \<lparr>isInvalidated = False\<rparr>) | Some q \<Rightarrow> c)"

definition users_queryKey :: "string list" where
  "users_queryKey = [''users'']"

definition search_queryKey :: "string \<Rightarrow> string list" where
  "search_queryKey searchTerm = [''users'', ''search'', searchTerm]"

subsection \<open>The component state\<close>

record app_state =
  formData :: CreateUserInput
  editingUser :: "User option"
  searchInput :: string
  searchTerm :: string
  isDeleteModalOpen :: bool
  userToDelete :: "string option"
  queryCache :: query_cache
  isPending :: "mutation \<Rightarrow> bool"
  issued :: "mutation_call list"

text \<open>
  \<open>issued\<close> is the trace of the requests sent by \<open>mutationFn\<close>, oldest first: it is how the
  model observes that a mutation was, or was not, invoked.
\<close>

definition initial_state :: app_state where
  "initial_state =
     \<lparr> formData = form_of '''' '''',
       editingUser = None,
       searchInput = '''',
       searchTerm = '''',
       isDeleteModalOpen = False,
       userToDelete = None,
       queryCache = build (search_queryKey '''') (build users_queryKey Map.empty),
       isPending = (\<lambda>m. False),
       issued = [] \<rparr>"

section \<open>Queries\<close>

text \<open>
  The backend module \<open>api\<close> is imported from outside the component, so it is a parameter:
  what \<open>getUsers\<close> and \<open>searchUser\<close> answer, \<open>None\<close> standing for a rejected promise.
\<close>

record api =
  getUsers :: "User list option"
  searchUser :: "string \<Rightarrow> User list option"

definition users_queryFn :: "api \<Rightarrow> User list option" where
  "users_queryFn a = getUsers a"

definition searchResults_queryFn :: "api \<Rightarrow> string \<Rightarrow> User list option" where
  \<comment> \<open>\<open>searchTerm ? api.searchUser(searchTerm) : api.getUsers()\<close>; a string is truthy
      when it is not empty\<close>
  "searchResults_queryFn a term =
     (if term \<noteq> [] then searchUser a term else getUsers a)"

text \<open>
  What a query observer reports. \<open>data\<close> is undefined unless the fetch succeeded, and
  \<open>isLoading\<close> holds while the first fetch is under way.
\<close>

datatype 'a query_result = Loading | Failed | Loaded 'a

fun data :: "'a query_result \<Rightarrow> 'a option" where
  "data (Loaded d) = Some d"
| "data _ = None"

fun isLoading :: "'a query_result \<Rightarrow> bool" where
  "isLoading Loading = True"
| "isLoading _ = False"

fun isError :: "'a query_result \<Rightarrow> bool" where
  "isError Failed = True"
| "isError _ = False"

definition settled :: "'a option \<Rightarrow> 'a query_result" where
  "settled r = (case r of None \<Rightarrow> Failed | Some d \<Rightarrow> Loaded d)"

text \<open>
  The table area of the rendered component: a spinner while either query loads, the error
  text when the full-list query failed, otherwise one row per user of \<open>searchResults\<close>
  (\<open>searchResults?.map\<close> renders nothing when there is no data).
\<close>

datatype view = Spinner | ErrorMessage | Table "User list"

definition table_view :: "User list query_result \<Rightarrow> User list query_result \<Rightarrow> view" where
  "table_view usersQ searchQ =
     (if isLoading usersQ \<or> isLoading searchQ then Spinner
      else if isError usersQ then ErrorMessage
      else Table (case data searchQ of None \<Rightarrow> [] | Some us \<Rightarrow> us))"

definition displayed :: "api \<Rightarrow> app_state \<Rightarrow> view" where
  \<comment> \<open>what the table area shows once both queries of the current render have settled\<close>
  "displayed a s =
     table_view (settled (users_queryFn a))
                (settled (searchResults_queryFn a (searchTerm s)))"

definition useQuery :: "app_state \<Rightarrow> app_state" where
  \<comment> \<open>each render observes the keys \<open>['users']\<close> and \<open>['users', 'search', searchTerm]\<close>\<close>
  "useQuery s =
     s\<lparr>queryCache := build (search_queryKey (searchTerm s))
                          (build users_queryKey (queryCache s))\<rparr>"

section \<open>Mutations\<close>

text \<open>
  The options of a mutation, as far as the component uses them: the hooks that
  \<open>useMutation\<close> and \<open>mutate\<close> accept. A hook that is not given is \<open>None\<close>.
\<close>

record mutation_options =
  onSuccess :: "(app_state \<Rightarrow> app_state) option"
  onError :: "(app_state \<Rightarrow> app_state) option"

definition no_options :: mutation_options where
  "no_options = \<lparr>onSuccess = None, onError = None\<rparr>"

definition run_hook :: "(app_state \<Rightarrow> app_state) option \<Rightarrow> app_state \<Rightarrow> app_state" where
  "run_hook h s = (case h of None \<Rightarrow> s | Some f \<Rightarrow> f s)"

text \<open>
  Modelled from the spec: \<open>mutate\<close> of the library's \<open>useMutation\<close> (section 4.2: each
  mutation is a single request and exposes a pending flag while in flight). It sends the
  request of \<open>mutationFn\<close> and raises the pending flag of the mutation.
\<close>

definition mutate :: "mutation \<Rightarrow> mutation_call \<Rightarrow> app_state \<Rightarrow> app_state" where
  "mutate m call s =
     s\<lparr>isPending := (isPending s)(m := True), issued := issued s @ [call]\<rparr>"

text \<open>
  Modelled from the spec: how the library ends a mutation (sections 4.2 and 7, design
  notes). It runs the matching hook of the mutation's own options, then the matching hook
  passed at the call site, and lowers the pending flag. Nothing is sent again: none of the
  three mutations asks for retries, and a mutation is not retried unless it does.
\<close>

fun settle ::
  "mutation \<Rightarrow> mutation_options \<Rightarrow> mutation_options \<Rightarrow> outcome \<Rightarrow> app_state \<Rightarrow> app_state"
where
  "settle m own callsite Resolved s =
     (let s1 = run_hook (onSuccess own) s;
          s2 = run_hook (onSuccess callsite) s1
      in s2\<lparr>isPending := (isPending s2)(m := False)\<rparr>)"
| "settle m own callsite Rejected s =
     (let s1 = run_hook (onError own) s;
          s2 = run_hook (onError callsite) s1
      in s2\<lparr>isPending := (isPending s2)(m := False)\<rparr>)"

definition createUserMutation :: mutation_options where
  "createUserMutation =
     \<lparr> onSuccess = Some (\<lambda>s.
         s\<lparr>queryCache := invalidateQueries [''users''] (queryCache s),
           formData := form_of '''' ''''\<rparr>),
       onError = None \<rparr>"

definition deleteUserMutation :: mutation_options where
  "deleteUserMutation =
     \<lparr> onSuccess = Some (\<lambda>s.
         s\<lparr>queryCache := invalidateQueries [''users'', ''search'']
                             (invalidateQueries [''users''] (queryCache s))\<rparr>),
       onError = None \<rparr>"

definition updateUserMutation :: mutation_options where
  "updateUserMutation =
     \<lparr> onSuccess = Some (\<lambda>s.
         s\<lparr>queryCache := invalidateQueries [''users''] (queryCache s)\<rparr>),
       onError = None \<rparr>"

section \<open>Event handlers\<close>

definition handleSubmit :: "app_state \<Rightarrow> app_state" where
  "handleSubmit s = mutate Create (CreateUser (formData s)) s"

definition handleInputChange :: "string \<Rightarrow> string \<Rightarrow> app_state \<Rightarrow> app_state" where
  "handleInputChange name val s = s\<lparr>formData := (formData s)(name \<mapsto> val)\<rparr>"

definition handleDelete :: "string \<Rightarrow> app_state \<Rightarrow> app_state" where
  "handleDelete i s = s\<lparr>userToDelete := Some i, isDeleteModalOpen := True\<rparr>"

definition handleConfirmDelete :: "app_state \<Rightarrow> app_state" where
  \<comment> \<open>\<open>if (userToDelete)\<close>: \<open>null\<close> and the empty string are falsy\<close>
  "handleConfirmDelete s =
     (case userToDelete s of
        None \<Rightarrow> s
      | Some i \<Rightarrow>
          if i \<noteq> [] then
            (mutate Delete (DeleteUser i) s)\<lparr>isDeleteModalOpen := False, userToDelete := None\<rparr>
          else s)"

definition handleEdit :: "User \<Rightarrow> app_state \<Rightarrow> app_state" where
  "handleEdit user s =
     s\<lparr>editingUser := Some user, formData := form_of (firstName user) (lastName user)\<rparr>"

definition handleUpdate_options :: mutation_options where
  \<comment> \<open>the second argument of \<open>updateUserMutation.mutate\<close> in \<open>handleUpdate\<close>\<close>
  "handleUpdate_options =
     \<lparr> onSuccess = Some (\<lambda>s. s\<lparr>editingUser := None, formData := form_of '''' ''''\<rparr>),
       onError = None \<rparr>"

definition handleUpdate :: "app_state \<Rightarrow> app_state" where
  "handleUpdate s =
     (case editingUser s of
        None \<Rightarrow> s
      | Some u \<Rightarrow> mutate Update (UpdateUser (user_id u) (formData s)) s)"

definition handleSearch :: "string \<Rightarrow> app_state \<Rightarrow> app_state" where
  "handleSearch val s = s\<lparr>searchInput := val\<rparr>"

definition executeSearch :: "app_state \<Rightarrow> app_state" where
  "executeSearch s = s\<lparr>searchTerm := searchInput s\<rparr>"

definition handleSearchKeyPress :: "string \<Rightarrow> app_state \<Rightarrow> app_state" where
  "handleSearchKeyPress key s = (if key = ''Enter'' then executeSearch s else s)"

definition form_onSubmit :: "app_state \<Rightarrow> app_state" where
  \<comment> \<open>\<open>onSubmit={editingUser ? handleUpdate : handleSubmit}\<close>\<close>
  "form_onSubmit s = (if editingUser s \<noteq> None then handleUpdate s else handleSubmit s)"

definition cancel_onClick :: "app_state \<Rightarrow> app_state" where
  "cancel_onClick s = s\<lparr>formData := form_of '''' '''', editingUser := None\<rparr>"

definition modal_onClose :: "app_state \<Rightarrow> app_state" where
  "modal_onClose s = s\<lparr>isDeleteModalOpen := False, userToDelete := None\<rparr>"

text \<open>
  The end of a request, per mutation. \<open>handleUpdate\<close> is the only caller of
  \<open>updateUserMutation.mutate\<close>, so every update carries its call-site hook; the other two
  mutations are started without call-site options.
\<close>

fun settled_mutation :: "mutation \<Rightarrow> outcome \<Rightarrow> app_state \<Rightarrow> app_state" where
  "settled_mutation Create r s = settle Create createUserMutation no_options r s"
| "settled_mutation Delete r s = settle Delete deleteUserMutation no_options r s"
| "settled_mutation Update r s = settle Update updateUserMutation handleUpdate_options r s"

section \<open>Events and runs\<close>

text \<open>
  The events the component reacts to. The submit button is disabled while a create or an
  update is pending and the delete buttons while a delete is pending; a request can only
  end while it is pending. After every event the component renders again, which observes
  the two queries of the new state.
\<close>

datatype event =
    Submit
  | InputChange string string
  | ClickDelete string
  | ConfirmDelete
  | CloseModal
  | ClickEdit User
  | CancelForm
  | SearchChange string
  | SearchClick
  | SearchKeyDown string
  | Settled mutation outcome

fun handle :: "event \<Rightarrow> app_state \<Rightarrow> app_state" where
  "handle Submit s =
     (if isPending s Create \<or> isPending s Update then s else form_onSubmit s)"
| "handle (InputChange name val) s = handleInputChange name val s"
| "handle (ClickDelete i) s = (if isPending s Delete then s else handleDelete i s)"
| "handle ConfirmDelete s = handleConfirmDelete s"
| "handle CloseModal s = modal_onClose s"
| "handle (ClickEdit user) s = handleEdit user s"
| "handle CancelForm s = cancel_onClick s"
| "handle (SearchChange val) s = handleSearch val s"
| "handle SearchClick s = executeSearch s"
| "handle (SearchKeyDown key) s = handleSearchKeyPress key s"
| "handle (Settled m r) s = (if isPending s m then settled_mutation m r s else s)"

definition fire :: "event \<Rightarrow> app_state \<Rightarrow> app_state" where
  "fire e s = useQuery (handle e s)"

definition run :: "event list \<Rightarrow> app_state \<Rightarrow> app_state" where
  "run es s = foldl (\<lambda>s e. fire e s) s es"

text \<open>
  A sequence of field edits, each a pair of the input's \<open>name\<close> and its new value, handled
  in order by \<open>handleInputChange\<close>.
\<close>

definition apply_edits :: "(string \<times> string) list \<Rightarrow> app_state \<Rightarrow> app_state" where
  "apply_edits edits s = foldl (\<lambda>s (name, val). handleInputChange name val s) s edits"

text \<open>
  The events that commit the search input (the search button, the Enter key in the input
  box), and the events that only edit it: a change of the box, or a key other than Enter.
\<close>

fun commits :: "event \<Rightarrow> bool" where
  "commits SearchClick = True"
| "commits (SearchKeyDown key) = (key = ''Enter'')"
| "commits _ = False"

fun input_edit :: "event \<Rightarrow> bool" where
  "input_edit (SearchChange val) = True"
| "input_edit (SearchKeyDown key) = (key \<noteq> ''Enter'')"
| "input_edit _ = False"

text \<open>Values used to run the model on concrete inputs.\<close>

definition ada :: User where
  "ada = \<lparr>user_id = ''u1'', firstName = ''Ada'', lastName = ''Lovelace''\<rparr>"

definition jane :: User where
  "jane = \<lparr>user_id = ''u2'', firstName = ''Jane'', lastName = ''Doe''\<rparr>"

definition backend :: api where
  "backend = \<lparr>getUsers = Some [ada, jane],
              searchUser = (\<lambda>t. if t = ''Jane'' then Some [jane] else Some [])\<rparr>"

definition awaiting :: app_state where
  \<comment> \<open>the initial state after a click on the delete button of the row of \<open>ada\<close>\<close>
  "awaiting = handleDelete ''u1'' initial_state"

definition editing :: app_state where
  \<comment> \<open>the initial state after a click on the edit button of the row of \<open>ada\<close>\<close>
  "editing = handleEdit ada initial_state"

section \<open>Properties\<close>

subsection \<open>Deletion is confirmed first\<close>

text \<open>
  Claim C10. When the prompt is confirmed while no deletion target is recorded
  (\<open>userToDelete\<close> is \<open>null\<close>, or the empty string, which the guard of
  \<open>handleConfirmDelete\<close> treats like \<open>null\<close>), the handler does nothing: the state is the
  same, so no request is issued, no pending flag is raised and the prompt stays as it was.
\<close>

theorem confirm_without_target:
  assumes "userToDelete s = None \<or> userToDelete s = Some ''''"
  shows "handleConfirmDelete s = s
       \<and> issued (handleConfirmDelete s) = issued s
       \<and> isPending (handleConfirmDelete s) = isPending s
       \<and> isDeleteModalOpen (handleConfirmDelete s) = isDeleteModalOpen s
       \<and> handle ConfirmDelete s = s"
  using assms by (auto simp: handleConfirmDelete_def)

theorem confirm_without_target_witness:
  "userToDelete initial_state = None
   \<and> handleConfirmDelete initial_state = initial_state
   \<and> userToDelete (handleDelete '''' initial_state) = Some ''''
   \<and> isDeleteModalOpen (handleDelete '''' initial_state)
   \<and> handleConfirmDelete (handleDelete '''' initial_state) = handleDelete '''' initial_state
   \<and> isDeleteModalOpen (handleConfirmDelete (handleDelete '''' initial_state))
   \<and> issued (handleConfirmDelete (handleDelete '''' initial_state)) = []"
  using confirm_without_target [of initial_state]
        confirm_without_target [of "handleDelete '''' initial_state"]
  by (simp add: handleDelete_def initial_state_def)

text \<open>
  Claim C1. Take any state that records a deletion target \<open>i\<close> (a non-empty identifier, as
  the rows pass to \<open>handleDelete\<close>). Confirming issues the request \<open>DeleteUser i\<close>, and when
  that request resolves: the target is cleared, the prompt is closed, and every cached
  query under the key \<open>['users']\<close> or under a key \<open>['users', 'search', t]\<close> is marked
  invalidated.
\<close>

theorem delete_success:
  assumes "userToDelete s = Some i" and "i \<noteq> ''''"
  defines "s1 \<equiv> handleConfirmDelete s"
  defines "s2 \<equiv> settled_mutation Delete Resolved s1"
  shows "issued s1 = issued s @ [DeleteUser i] \<and> isPending s1 Delete
       \<and> issued s2 = issued s1 \<and> \<not> isPending s2 Delete
       \<and> userToDelete s2 = None \<and> \<not> isDeleteModalOpen s2
       \<and> (\<forall>k q. queryCache s1 k = Some q \<and> (k = users_queryKey \<or> (\<exists>t. k = search_queryKey t))
            \<longrightarrow> (\<exists>q'. queryCache s2 k = Some q' \<and> isInvalidated q'))"
  using assms
  by (auto simp: handleConfirmDelete_def mutate_def deleteUserMutation_def no_options_def
      run_hook_def Let_def users_queryKey_def search_queryKey_def invalidateQueries_def)

theorem delete_success_witness:
  "userToDelete awaiting = Some ''u1'' \<and> isDeleteModalOpen awaiting
   \<and> issued (handleConfirmDelete awaiting) = [DeleteUser ''u1'']
   \<and> userToDelete (settled_mutation Delete Resolved (handleConfirmDelete awaiting)) = None
   \<and> \<not> isDeleteModalOpen (settled_mutation Delete Resolved (handleConfirmDelete awaiting))
   \<and> queryCache (handleConfirmDelete awaiting) users_queryKey = Some \<lparr>isInvalidated = False\<rparr>
   \<and> queryCache (handleConfirmDelete awaiting) (search_queryKey '''')
       = Some \<lparr>isInvalidated = False\<rparr>
   \<and> queryCache (settled_mutation Delete Resolved (handleConfirmDelete awaiting)) users_queryKey
       = Some \<lparr>isInvalidated = True\<rparr>
   \<and> queryCache (settled_mutation Delete Resolved (handleConfirmDelete awaiting))
         (search_queryKey '''') = Some \<lparr>isInvalidated = True\<rparr>"
  using delete_success [of awaiting "''u1''"]
  by (simp add: awaiting_def handleDelete_def initial_state_def handleConfirmDelete_def
      mutate_def deleteUserMutation_def no_options_def run_hook_def build_def
      users_queryKey_def search_queryKey_def invalidateQueries_def)

text \<open>
  Claim C7. After a click on the delete button of a row, which records the row's identifier
  and opens the prompt, closing the prompt (\<open>onClose\<close>, the cancel path) clears the
  identifier and closes the prompt. Neither step issues a request or touches a pending
  flag: the state is the one before the click, with the target slot empty and the prompt
  closed.
\<close>

theorem cancel_delete:
  "userToDelete (handleDelete i s) = Some i \<and> isDeleteModalOpen (handleDelete i s)
   \<and> issued (handleDelete i s) = issued s
   \<and> userToDelete (modal_onClose (handleDelete i s)) = None
   \<and> \<not> isDeleteModalOpen (modal_onClose (handleDelete i s))
   \<and> issued (modal_onClose (handleDelete i s)) = issued s
   \<and> isPending (modal_onClose (handleDelete i s)) = isPending s
   \<and> modal_onClose (handleDelete i s) = s\<lparr>userToDelete := None, isDeleteModalOpen := False\<rparr>"
  by (simp add: handleDelete_def modal_onClose_def)

theorem cancel_delete_witness:
  "userToDelete awaiting = Some ''u1'' \<and> isDeleteModalOpen awaiting
   \<and> modal_onClose awaiting = initial_state
   \<and> issued (modal_onClose awaiting) = []"
  using cancel_delete [of "''u1''" initial_state]
  by (simp add: awaiting_def initial_state_def)

subsection \<open>Create and update\<close>

text \<open>
  Claim C2. In create mode (no user is being edited), submitting the form issues
  \<open>CreateUser\<close> with the current form data, whatever it is. When that request resolves,
  the cached query under the key \<open>['users']\<close> is marked invalidated and the form data is
  \<open>{ firstName: '', lastName: '' }\<close>.
\<close>

theorem create_success:
  assumes "editingUser s = None"
  defines "s1 \<equiv> form_onSubmit s"
  defines "s2 \<equiv> settled_mutation Create Resolved s1"
  shows "issued s1 = issued s @ [CreateUser (formData s)] \<and> isPending s1 Create
       \<and> issued s2 = issued s1 \<and> \<not> isPending s2 Create
       \<and> formData s2 = form_of '''' ''''
       \<and> (\<forall>q. queryCache s1 users_queryKey = Some q
            \<longrightarrow> (\<exists>q'. queryCache s2 users_queryKey = Some q' \<and> isInvalidated q'))"
  using assms
  by (auto simp: form_onSubmit_def handleSubmit_def mutate_def createUserMutation_def
      no_options_def run_hook_def Let_def users_queryKey_def invalidateQueries_def)

theorem create_success_witness:
  "editingUser (handleInputChange ''lastName'' ''Lovelace'' initial_state) = None
   \<and> issued (form_onSubmit (handleInputChange ''lastName'' ''Lovelace'' initial_state))
       = [CreateUser (form_of '''' ''Lovelace'')]
   \<and> formData (settled_mutation Create Resolved
        (form_onSubmit (handleInputChange ''lastName'' ''Lovelace'' initial_state)))
       = form_of '''' ''''
   \<and> queryCache (form_onSubmit (handleInputChange ''lastName'' ''Lovelace'' initial_state))
        users_queryKey = Some \<lparr>isInvalidated = False\<rparr>
   \<and> (\<exists>q'. queryCache (settled_mutation Create Resolved
          (form_onSubmit (handleInputChange ''lastName'' ''Lovelace'' initial_state)))
          users_queryKey = Some q' \<and> isInvalidated q')"
  using create_success [of "handleInputChange ''lastName'' ''Lovelace'' initial_state"]
  by (simp add: handleInputChange_def initial_state_def form_of_def form_onSubmit_def
      handleSubmit_def mutate_def build_def users_queryKey_def search_queryKey_def
      createUserMutation_def no_options_def run_hook_def invalidateQueries_def)

text \<open>
  Claim C3. In edit mode (user \<open>u\<close> is being edited), submitting the form issues
  \<open>UpdateUser\<close> with the identifier of \<open>u\<close> and the current form data. When that
  request resolves, the cached query under \<open>['users']\<close> is marked invalidated, no user is
  being edited and the form data is \<open>{ firstName: '', lastName: '' }\<close>. The two hooks are
  layered: the mutation's own hook only invalidates (after it the user is still being
  edited and the form data is as submitted), and the hook passed by \<open>handleUpdate\<close>, which
  runs after it, leaves the cache alone and clears edit mode and the form.
\<close>

theorem update_success:
  assumes "editingUser s = Some u"
  defines "s1 \<equiv> form_onSubmit s"
  defines "own \<equiv> run_hook (onSuccess updateUserMutation) s1"
  defines "s2 \<equiv> settled_mutation Update Resolved s1"
  shows "issued s1 = issued s @ [UpdateUser (user_id u) (formData s)] \<and> isPending s1 Update
       \<and> issued s2 = issued s1 \<and> \<not> isPending s2 Update
       \<and> editingUser s2 = None
       \<and> formData s2 = form_of '''' ''''
       \<and> (\<forall>q. queryCache s1 users_queryKey = Some q
            \<longrightarrow> (\<exists>q'. queryCache s2 users_queryKey = Some q' \<and> isInvalidated q'))
       \<and> editingUser own = Some u \<and> formData own = formData s
       \<and> queryCache own = invalidateQueries [''users''] (queryCache s1)
       \<and> queryCache (run_hook (onSuccess handleUpdate_options) own) = queryCache own
       \<and> s2 = (run_hook (onSuccess handleUpdate_options) own)
                \<lparr>isPending := (isPending s1)(Update := False)\<rparr>"
  using assms
  by (auto simp: form_onSubmit_def handleUpdate_def mutate_def updateUserMutation_def
      handleUpdate_options_def run_hook_def Let_def users_queryKey_def invalidateQueries_def)

theorem update_success_witness:
  "editingUser editing = Some ada
   \<and> issued (form_onSubmit editing) = [UpdateUser ''u1'' (form_of ''Ada'' ''Lovelace'')]
   \<and> editingUser (settled_mutation Update Resolved (form_onSubmit editing)) = None
   \<and> formData (settled_mutation Update Resolved (form_onSubmit editing)) = form_of '''' ''''
   \<and> queryCache (form_onSubmit editing) users_queryKey = Some \<lparr>isInvalidated = False\<rparr>
   \<and> (\<exists>q'. queryCache (settled_mutation Update Resolved (form_onSubmit editing))
          users_queryKey = Some q' \<and> isInvalidated q')"
  using update_success [of editing ada]
  by (simp add: editing_def ada_def handleEdit_def initial_state_def form_onSubmit_def
      handleUpdate_def mutate_def build_def users_queryKey_def search_queryKey_def
      updateUserMutation_def handleUpdate_options_def run_hook_def invalidateQueries_def)

subsection \<open>Failed requests\<close>

text \<open>
  Claim C9. When the request of any of the three mutations is rejected, the only change is
  that the pending flag of that mutation is false: nothing is issued again, and the form
  data, the edited user, the search input, the committed search term, the deletion target,
  the prompt and the query cache are as before, since no error hook is registered.
\<close>

theorem failure_changes_nothing:
  "settled_mutation m Rejected s = s\<lparr>isPending := (isPending s)(m := False)\<rparr>
   \<and> issued (settled_mutation m Rejected s) = issued s
   \<and> \<not> isPending (settled_mutation m Rejected s) m
   \<and> formData (settled_mutation m Rejected s) = formData s
   \<and> editingUser (settled_mutation m Rejected s) = editingUser s
   \<and> searchInput (settled_mutation m Rejected s) = searchInput s
   \<and> searchTerm (settled_mutation m Rejected s) = searchTerm s
   \<and> isDeleteModalOpen (settled_mutation m Rejected s) = isDeleteModalOpen s
   \<and> userToDelete (settled_mutation m Rejected s) = userToDelete s
   \<and> queryCache (settled_mutation m Rejected s) = queryCache s"
  by (cases m)
     (simp_all add: createUserMutation_def deleteUserMutation_def updateUserMutation_def
        handleUpdate_options_def no_options_def run_hook_def)

theorem failure_changes_nothing_witness:
  "issued (settled_mutation Update Rejected (form_onSubmit editing))
     = [UpdateUser ''u1'' (form_of ''Ada'' ''Lovelace'')]
   \<and> isPending (form_onSubmit editing) Update
   \<and> \<not> isPending (settled_mutation Update Rejected (form_onSubmit editing)) Update
   \<and> editingUser (settled_mutation Update Rejected (form_onSubmit editing)) = Some ada
   \<and> formData (settled_mutation Update Rejected (form_onSubmit editing))
       = form_of ''Ada'' ''Lovelace''"
  using failure_changes_nothing [of Update "form_onSubmit editing"]
  by (simp add: editing_def ada_def handleEdit_def initial_state_def form_onSubmit_def
      handleUpdate_def mutate_def)

subsection \<open>Search\<close>

text \<open>
  Claim C4. When the committed search term is the empty string, the search query fetches
  with the full-list operation: its \<open>queryFn\<close> is the one of the \<open>['users']\<close> query, for
  every backend, whatever \<open>searchUser\<close> would answer. So the table shows what the full
  list gives, and when \<open>getUsers\<close> answers \<open>us\<close> the rows are \<open>us\<close>.
\<close>

theorem empty_term_is_full_list:
  assumes "searchTerm s = ''''"
  shows "searchResults_queryFn a (searchTerm s) = users_queryFn a
       \<and> displayed a s = table_view (settled (users_queryFn a)) (settled (users_queryFn a))
       \<and> (\<forall>us. getUsers a = Some us \<longrightarrow> displayed a s = Table us)"
  using assms
  by (simp add: searchResults_queryFn_def users_queryFn_def displayed_def table_view_def
      settled_def)

theorem empty_term_is_full_list_witness:
  "searchTerm initial_state = '''' \<and> getUsers backend = Some [ada, jane]
   \<and> searchUser backend '''' = Some []
   \<and> searchResults_queryFn backend (searchTerm initial_state) = Some [ada, jane]
   \<and> displayed backend initial_state = Table [ada, jane]"
  using empty_term_is_full_list [of initial_state backend]
  by (simp add: initial_state_def backend_def users_queryFn_def table_view_def settled_def)

subsection \<open>Form edits\<close>

lemma apply_edits_Nil: "apply_edits [] s = s"
  by (simp add: apply_edits_def)

lemma apply_edits_Cons:
  "apply_edits ((n, v) # es) s = apply_edits es (handleInputChange n v s)"
  by (simp add: apply_edits_def)

lemma apply_edits_closed_form:
  "apply_edits edits s = s\<lparr>formData := formData s ++ map_of (rev edits)\<rparr>"
proof (induction edits arbitrary: s)
  case Nil
  show ?case by (simp add: apply_edits_Nil)
next
  case (Cons e edits)
  obtain n v where e: "e = (n, v)" by (cases e)
  have "apply_edits (e # edits) s = apply_edits edits (handleInputChange n v s)"
    by (simp only: e apply_edits_Cons)
  also have "\<dots> = (handleInputChange n v s)
      \<lparr>formData := formData (handleInputChange n v s) ++ map_of (rev edits)\<rparr>"
    by (rule Cons.IH)
  also have "\<dots> = s\<lparr>formData := formData s ++ map_of (rev (e # edits))\<rparr>"
    by (simp add: e handleInputChange_def)
  finally show ?case .
qed

text \<open>
  Claim C6. An edit sets the named property of the form data and leaves every other
  property as it was. After a sequence of edits a property holds the value of the last
  edit that named it (the first pair with that name in the reversed sequence), or its old
  value when no edit named it, and nothing but the form data has changed. Two edits that
  name different properties give the same state in either order.
\<close>

theorem field_edits_keyed_merge:
  "formData (handleInputChange name val s) name = Some val
   \<and> (\<forall>k. k \<noteq> name \<longrightarrow> formData (handleInputChange name val s) k = formData s k)
   \<and> (\<forall>k. formData (apply_edits edits s) k =
           (case map_of (rev edits) k of None \<Rightarrow> formData s k | Some v \<Rightarrow> Some v))
   \<and> apply_edits edits s = s\<lparr>formData := formData (apply_edits edits s)\<rparr>
   \<and> (n1 \<noteq> n2 \<longrightarrow>
        handleInputChange n1 v1 (handleInputChange n2 v2 s)
        = handleInputChange n2 v2 (handleInputChange n1 v1 s))"
proof -
  have a: "formData (handleInputChange name val s) name = Some val"
    by (simp add: handleInputChange_def)
  have b: "\<forall>k. k \<noteq> name \<longrightarrow> formData (handleInputChange name val s) k = formData s k"
    by (simp add: handleInputChange_def)
  have c: "\<forall>k. formData (apply_edits edits s) k =
           (case map_of (rev edits) k of None \<Rightarrow> formData s k | Some v \<Rightarrow> Some v)"
    by (simp add: apply_edits_closed_form map_add_def)
  have c': "apply_edits edits s = s\<lparr>formData := formData (apply_edits edits s)\<rparr>"
    by (simp add: apply_edits_closed_form)
  have d: "n1 \<noteq> n2 \<longrightarrow>
        handleInputChange n1 v1 (handleInputChange n2 v2 s)
        = handleInputChange n2 v2 (handleInputChange n1 v1 s)"
  proof
    assume "n1 \<noteq> n2"
    then have "(formData s)(n2 \<mapsto> v2, n1 \<mapsto> v1) = (formData s)(n1 \<mapsto> v1, n2 \<mapsto> v2)"
      by (rule fun_upd_twist [symmetric, THEN sym, THEN sym])
    then show "handleInputChange n1 v1 (handleInputChange n2 v2 s)
        = handleInputChange n2 v2 (handleInputChange n1 v1 s)"
      by (simp add: handleInputChange_def)
  qed
  from a b c c' d show ?thesis by blast
qed

theorem field_edits_keyed_merge_witness:
  "formData (apply_edits [(''firstName'', ''A''), (''lastName'', ''L''), (''firstName'', ''Ada'')]
      initial_state) ''firstName'' = Some ''Ada''
   \<and> formData (apply_edits [(''firstName'', ''A''), (''lastName'', ''L''), (''firstName'', ''Ada'')]
      initial_state) ''lastName'' = Some ''L''
   \<and> formData (handleInputChange ''firstName'' ''Ada'' initial_state) ''lastName'' = Some ''''
   \<and> ''firstName'' \<noteq> ''lastName''
   \<and> handleInputChange ''firstName'' ''Ada'' (handleInputChange ''lastName'' ''L'' initial_state)
     = handleInputChange ''lastName'' ''L'' (handleInputChange ''firstName'' ''Ada'' initial_state)"
  using field_edits_keyed_merge
    [where name = "''firstName''" and val = "''Ada''" and s = initial_state
       and edits = "[(''firstName'', ''A''), (''lastName'', ''L''), (''firstName'', ''Ada'')]"
       and ?n1.0 = "''firstName''" and ?n2.0 = "''lastName''" and ?v1.0 = "''Ada''"
       and ?v2.0 = "''L''"]
  by (simp add: initial_state_def form_of_def)

subsection \<open>Runs\<close>

lemma run_Nil: "run [] s = s"
  by (simp add: run_def)

lemma run_Cons: "run (e # es) s = run es (fire e s)"
  by (simp add: run_def)

lemma run_append: "run (xs @ ys) s = run ys (run xs s)"
  by (simp add: run_def)

lemma searchTerm_useQuery: "searchTerm (useQuery s) = searchTerm s"
  by (simp add: useQuery_def)

lemma searchTerm_settled_mutation: "searchTerm (settled_mutation m r s) = searchTerm s"
  by (cases m; cases r)
     (simp_all add: createUserMutation_def deleteUserMutation_def updateUserMutation_def
        handleUpdate_options_def no_options_def run_hook_def)

lemma searchTerm_handle: "\<not> commits e \<Longrightarrow> searchTerm (handle e s) = searchTerm s"
  by (cases e)
     (simp_all add: form_onSubmit_def handleSubmit_def handleUpdate_def mutate_def
        handleInputChange_def handleDelete_def handleConfirmDelete_def modal_onClose_def
        handleEdit_def cancel_onClick_def handleSearch_def handleSearchKeyPress_def
        searchTerm_settled_mutation split: option.splits)

lemma searchTerm_fire: "\<not> commits e \<Longrightarrow> searchTerm (fire e s) = searchTerm s"
  by (simp add: fire_def searchTerm_useQuery searchTerm_handle)

lemma searchTerm_run:
  "\<forall>e\<in>set es. \<not> commits e \<Longrightarrow> searchTerm (run es s) = searchTerm s"
  by (induction es arbitrary: s) (simp_all add: run_Nil run_Cons searchTerm_fire)

lemma input_edit_not_commits: "input_edit e \<Longrightarrow> \<not> commits e"
  by (cases e) simp_all

lemma displayed_cong: "searchTerm s1 = searchTerm s2 \<Longrightarrow> displayed a s1 = displayed a s2"
  by (simp add: displayed_def)

text \<open>
  Claim C5. What the table shows is a function of the committed search term, never of the
  live input: it is the answer of \<open>searchUser\<close> for the committed term, or of \<open>getUsers\<close>
  when that term is empty. Take two runs with the same events \<open>pre\<close>, then different
  edits of the input box (\<open>es1\<close>, \<open>es2\<close>), then the same events \<open>post\<close>, none of which
  commits the input. Both show the same table, the one of the term committed by \<open>pre\<close>.
\<close>

theorem display_ignores_uncommitted_edits:
  assumes "\<forall>e\<in>set es1. input_edit e" and "\<forall>e\<in>set es2. input_edit e"
    and "\<forall>e\<in>set post. \<not> commits e"
  shows "displayed a (run (pre @ es1 @ post) s) = displayed a (run (pre @ es2 @ post) s)
       \<and> searchTerm (run (pre @ es1 @ post) s) = searchTerm (run pre s)
       \<and> (searchTerm t1 = searchTerm t2 \<longrightarrow> displayed a t1 = displayed a t2)
       \<and> displayed a t1 =
           table_view (settled (getUsers a))
             (settled (if searchTerm t1 = '''' then getUsers a
                       else searchUser a (searchTerm t1)))
       \<and> (\<forall>all. getUsers a = Some all \<longrightarrow>
            displayed a t1 =
              Table (case (if searchTerm t1 = '''' then getUsers a
                           else searchUser a (searchTerm t1)) of
                       None \<Rightarrow> [] | Some us \<Rightarrow> us))"
proof -
  have ne1: "\<forall>e\<in>set (es1 @ post). \<not> commits e"
    using assms(1,3) input_edit_not_commits by auto
  have ne2: "\<forall>e\<in>set (es2 @ post). \<not> commits e"
    using assms(2,3) input_edit_not_commits by auto
  have t1: "searchTerm (run (pre @ es1 @ post) s) = searchTerm (run pre s)"
    using searchTerm_run [OF ne1] by (simp only: run_append)
  have t2: "searchTerm (run (pre @ es2 @ post) s) = searchTerm (run pre s)"
    using searchTerm_run [OF ne2] by (simp only: run_append)
  have same: "displayed a (run (pre @ es1 @ post) s) = displayed a (run (pre @ es2 @ post) s)"
    by (rule displayed_cong) (simp only: t1 t2)
  have fn: "displayed a t1 =
           table_view (settled (getUsers a))
             (settled (if searchTerm t1 = '''' then getUsers a
                       else searchUser a (searchTerm t1)))"
    by (simp add: displayed_def users_queryFn_def searchResults_queryFn_def)
  have rows: "\<forall>all. getUsers a = Some all \<longrightarrow>
            displayed a t1 =
              Table (case (if searchTerm t1 = '''' then getUsers a
                           else searchUser a (searchTerm t1)) of
                       None \<Rightarrow> [] | Some us \<Rightarrow> us)"
    by (auto simp: fn table_view_def settled_def split: option.splits)
  show ?thesis
    using same t1 fn rows displayed_cong [of t1 t2 a] by blast
qed

theorem display_ignores_uncommitted_edits_witness:
  "searchInput (run ([SearchChange ''Jane'', SearchClick] @ [SearchChange ''Ja''] @ [ClickEdit ada])
                 initial_state) = ''Ja''
   \<and> searchInput (run ([SearchChange ''Jane'', SearchClick] @ [SearchChange ''Jan'', SearchChange ''Janet''] @ [ClickEdit ada])
                 initial_state) = ''Janet''
   \<and> searchTerm (run ([SearchChange ''Jane'', SearchClick] @ [SearchChange ''Ja''] @ [ClickEdit ada])
                 initial_state) = ''Jane''
   \<and> displayed backend
        (run ([SearchChange ''Jane'', SearchClick] @ [SearchChange ''Ja''] @ [ClickEdit ada])
           initial_state)
     = Table [jane]
   \<and> displayed backend
        (run ([SearchChange ''Jane'', SearchClick] @ [SearchChange ''Jan'', SearchChange ''Janet''] @ [ClickEdit ada])
           initial_state)
     = Table [jane]"
  using display_ignores_uncommitted_edits
    [of "[SearchChange ''Ja'']" "[SearchChange ''Jan'', SearchChange ''Janet'']"
        "[ClickEdit ada]" backend "[SearchChange ''Jane'', SearchClick]" initial_state
        "run ([SearchChange ''Jane'', SearchClick] @ [SearchChange ''Ja''] @ [ClickEdit ada]) initial_state"
        "run ([SearchChange ''Jane'', SearchClick] @ [SearchChange ''Jan'', SearchChange ''Janet''] @ [ClickEdit ada]) initial_state"]
  by (simp add: run_def fire_def useQuery_def handleSearch_def executeSearch_def handleEdit_def
      initial_state_def backend_def displayed_def table_view_def settled_def
      searchResults_queryFn_def users_queryFn_def)

subsection \<open>The confirmation prompt along runs\<close>

lemma prompt_settled_mutation:
  "isDeleteModalOpen (settled_mutation m r s) = isDeleteModalOpen s
   \<and> userToDelete (settled_mutation m r s) = userToDelete s"
  by (cases m; cases r)
     (simp_all add: createUserMutation_def deleteUserMutation_def updateUserMutation_def
        handleUpdate_options_def no_options_def run_hook_def)

lemma prompt_handle:
  assumes "isDeleteModalOpen s \<longleftrightarrow> userToDelete s \<noteq> None"
  shows "isDeleteModalOpen (handle e s) \<longleftrightarrow> userToDelete (handle e s) \<noteq> None"
  using assms
  by (cases e)
     (auto simp: form_onSubmit_def handleSubmit_def handleUpdate_def mutate_def
        handleInputChange_def handleDelete_def handleConfirmDelete_def modal_onClose_def
        handleEdit_def cancel_onClick_def handleSearch_def handleSearchKeyPress_def
        executeSearch_def prompt_settled_mutation split: option.splits)

lemma prompt_fire:
  "(isDeleteModalOpen s \<longleftrightarrow> userToDelete s \<noteq> None) \<Longrightarrow>
   (isDeleteModalOpen (fire e s) \<longleftrightarrow> userToDelete (fire e s) \<noteq> None)"
  using prompt_handle [of s e] by (simp add: fire_def useQuery_def)

lemma prompt_run:
  "(isDeleteModalOpen s \<longleftrightarrow> userToDelete s \<noteq> None) \<Longrightarrow>
   (isDeleteModalOpen (run es s) \<longleftrightarrow> userToDelete (run es s) \<noteq> None)"
proof (induction es arbitrary: s)
  case Nil
  then show ?case by (simp add: run_Nil)
next
  case (Cons e es)
  from Cons.prems have "isDeleteModalOpen (fire e s) \<longleftrightarrow> userToDelete (fire e s) \<noteq> None"
    by (rule prompt_fire)
  then show ?case unfolding run_Cons by (rule Cons.IH)
qed

lemma prompt_initial: "isDeleteModalOpen initial_state \<longleftrightarrow> userToDelete initial_state \<noteq> None"
  by (simp add: initial_state_def)

text \<open>
  Claim C8. In every state reached from the initial one, the prompt is open exactly when a
  deletion target is recorded, and then there is exactly one. A second call of
  \<open>handleDelete\<close> overwrites the slot: the state is the one the second click alone would
  give, with the second identifier recorded, and confirming then issues the request for
  the second identifier only. The same holds for two clicks on enabled delete buttons.
\<close>

theorem single_target_slot:
  "(isDeleteModalOpen (run es initial_state)
      \<longrightarrow> (\<exists>!i. userToDelete (run es initial_state) = Some i))
   \<and> (\<not> isDeleteModalOpen (run es initial_state)
      \<longrightarrow> userToDelete (run es initial_state) = None)
   \<and> userToDelete (handleDelete b (handleDelete a s)) = Some b
   \<and> isDeleteModalOpen (handleDelete b (handleDelete a s))
   \<and> handleDelete b (handleDelete a s) = handleDelete b s
   \<and> (\<not> isPending s Delete \<longrightarrow>
        userToDelete (run [ClickDelete a, ClickDelete b] s) = Some b
        \<and> isDeleteModalOpen (run [ClickDelete a, ClickDelete b] s))
   \<and> (b \<noteq> '''' \<longrightarrow>
        issued (handleConfirmDelete (handleDelete b (handleDelete a s)))
        = issued s @ [DeleteUser b])"
proof -
  have inv: "isDeleteModalOpen (run es initial_state)
             \<longleftrightarrow> userToDelete (run es initial_state) \<noteq> None"
    using prompt_initial by (rule prompt_run)
  have one: "isDeleteModalOpen (run es initial_state)
      \<longrightarrow> (\<exists>!i. userToDelete (run es initial_state) = Some i)"
    using inv by auto
  have none: "\<not> isDeleteModalOpen (run es initial_state)
      \<longrightarrow> userToDelete (run es initial_state) = None"
    using inv by simp
  have over: "userToDelete (handleDelete b (handleDelete a s)) = Some b
      \<and> isDeleteModalOpen (handleDelete b (handleDelete a s))
      \<and> handleDelete b (handleDelete a s) = handleDelete b s"
    by (simp add: handleDelete_def)
  have ev: "\<not> isPending s Delete \<longrightarrow>
        userToDelete (run [ClickDelete a, ClickDelete b] s) = Some b
        \<and> isDeleteModalOpen (run [ClickDelete a, ClickDelete b] s)"
    by (simp add: run_def fire_def useQuery_def handleDelete_def)
  have conf: "b \<noteq> '''' \<longrightarrow>
        issued (handleConfirmDelete (handleDelete b (handleDelete a s)))
        = issued s @ [DeleteUser b]"
    by (simp add: handleDelete_def handleConfirmDelete_def mutate_def)
  from one none over ev conf show ?thesis by blast
qed

theorem single_target_slot_witness:
  "isDeleteModalOpen (run [ClickDelete ''u1'', ClickDelete ''u2''] initial_state)
   \<and> userToDelete (run [ClickDelete ''u1''] initial_state) = Some ''u1''
   \<and> userToDelete (run [ClickDelete ''u1'', ClickDelete ''u2''] initial_state) = Some ''u2''
   \<and> \<not> isDeleteModalOpen (run [ClickDelete ''u1'', CloseModal] initial_state)
   \<and> userToDelete (run [ClickDelete ''u1'', CloseModal] initial_state) = None
   \<and> issued (handleConfirmDelete (handleDelete ''u2'' (handleDelete ''u1'' initial_state)))
      = [DeleteUser ''u2'']"
  using single_target_slot [of "[ClickDelete ''u1'', ClickDelete ''u2'']" "''u2''" "''u1''" initial_state]
        single_target_slot [of "[ClickDelete ''u1'', CloseModal]" "''u2''" "''u1''" initial_state]
  by (simp add: run_def fire_def useQuery_def handleDelete_def modal_onClose_def
      initial_state_def)

end
